theory Spec2Isabelle
  imports Complex_Main "HOL-Library.Log_Nat"
begin

section \<open>JavaScript numbers\<close>

text \<open>
  A JavaScript number is an IEEE 754 binary64 value. The model carries the finite ones as
  the real numbers they denote (\<open>NaN\<close> and the infinities cannot come out of a JSON number
  of ordinary size, and are outside the model). Comparisons and \<open>Math.round\<close> are exact
  on doubles, so they are the real comparisons and the real rounding. Division and
  multiplication round their exact result to the nearest double, ties to even: that is
  \<open>fl\<close>, with the binary exponent found by \<open>expo\<close> and subnormals below \<open>2 ^ -1022\<close>.
\<close>

definition expo :: "real \<Rightarrow> int" where
  "expo x = (if 1 \<le> \<bar>x\<bar> then int (floorlog 2 (nat \<lfloor>\<bar>x\<bar>\<rfloor>)) - 1
             else - int (floorlog 2 (nat (\<lceil>1 / \<bar>x\<bar>\<rceil> - 1))))"

definition pow2 :: "int \<Rightarrow> real" where
  "pow2 e = (if 0 \<le> e then 2 ^ nat e else 1 / 2 ^ nat (- e))"

definition round_half_even :: "real \<Rightarrow> int" where
  "round_half_even y =
     (let f = \<lfloor>y\<rfloor>; r = y - of_int f
      in if r < 1 / 2 then f else if 1 / 2 < r then f + 1 else if even f then f else f + 1)"

definition fl :: "real \<Rightarrow> real" where
  "fl x = (if x = 0 then 0
           else let q = max (expo x - 52) (- 1074)
                in of_int (round_half_even (x / pow2 q)) * pow2 q)"

text \<open>\<open>Math.round\<close>: the nearest integer, a tie going towards plus infinity.\<close>

definition Math_round :: "real \<Rightarrow> real" where
  "Math_round x = of_int \<lfloor>x + 1 / 2\<rfloor>"

subsection \<open>Numbers as text\<close>

definition digit :: "nat \<Rightarrow> char" where
  "digit d = ''0123456789'' ! (d mod 10)"

fun show_nat :: "nat \<Rightarrow> string" where
  "show_nat n = (if n < 10 then [digit n] else show_nat (n div 10) @ [digit (n mod 10)])"

declare show_nat.simps [simp del]

definition show_int :: "int \<Rightarrow> string" where
  "show_int i = (if i < 0 then CHR ''-'' # show_nat (nat (- i)) else show_nat (nat i))"

text \<open>The last \<open>f\<close> decimal digits of \<open>n\<close>, leading zeros included.\<close>

fun low_digits :: "nat \<Rightarrow> nat \<Rightarrow> string" where
  "low_digits 0 n = []"
| "low_digits (Suc f) n = low_digits f (n div 10) @ [digit (n mod 10)]"

text \<open>
  \<open>String(x)\<close> and the conversion that \<open>+\<close> applies to a number next to a string. An
  integer of magnitude up to \<open>2 ^ 53\<close> is written as its decimal digits. Every other
  number is written with the shortest digit string that reads back as the same double;
  that search belongs to the runtime and is taken as the parameter \<open>numstr\<close>.
\<close>

definition Number_toString :: "(real \<Rightarrow> string) \<Rightarrow> real \<Rightarrow> string" where
  "Number_toString numstr x =
     (if x = of_int \<lfloor>x\<rfloor> \<and> \<bar>x\<bar> \<le> 2 ^ 53 then show_int \<lfloor>x\<rfloor> else numstr x)"

text \<open>
  \<open>x.toFixed(f)\<close>: the sign, then the integer \<open>n\<close> nearest to \<open>\<bar>x\<bar> * 10 ^ f\<close> (the larger of
  two equally near), written with at least \<open>f + 1\<close> digits and a point before the last
  \<open>f\<close>. From \<open>10 ^ 21\<close> on, \<open>toFixed\<close> gives the number's ordinary text instead.
\<close>

definition toFixed :: "(real \<Rightarrow> string) \<Rightarrow> nat \<Rightarrow> real \<Rightarrow> string" where
  "toFixed numstr f x =
     (let s = (if x < 0 then ''-'' else '''');
          a = \<bar>x\<bar>
      in if 10 ^ 21 \<le> a then s @ Number_toString numstr a
         else let n = nat \<lfloor>a * 10 ^ f + 1 / 2\<rfloor>;
                  m = show_nat n;
                  m' = (if length m \<le> f then replicate (f + 1 - length m) CHR ''0'' @ m else m)
              in if f = 0 then s @ m
                 else s @ take (length m' - f) m' @ ''.'' @ drop (length m' - f) m')"

section \<open>The threshold table\<close>

record threshold =
  good :: real
  poor :: real
  unit :: string
  label :: string

definition THRESHOLDS :: "(string \<times> threshold) list" where
  "THRESHOLDS =
     [(''LCP'', \<lparr>good = 2500, poor = 4000, unit = ''ms'', label = ''Largest Contentful Paint''\<rparr>),
      (''FID'', \<lparr>good = 100, poor = 300, unit = ''ms'', label = ''First Input Delay''\<rparr>),
      (''CLS'', \<lparr>good = fl (1 / 10), poor = 1 / 4, unit = '''', label = ''Cumulative Layout Shift''\<rparr>),
      (''TTFB'', \<lparr>good = 800, poor = 1800, unit = ''ms'', label = ''Time to First Byte''\<rparr>),
      (''FCP'', \<lparr>good = 1800, poor = 3000, unit = ''ms'', label = ''First Contentful Paint''\<rparr>),
      (''INP'', \<lparr>good = 200, poor = 500, unit = ''ms'', label = ''Interaction to Next Paint''\<rparr>)]"

text \<open>
  \<open>THRESHOLDS[metric]\<close> reads a property of an object literal: one of its own six, or else
  one that every plain object inherits from \<open>Object.prototype\<close> (a function, or the
  prototype itself for \<open>__proto__\<close>: an object without \<open>good\<close>, \<open>poor\<close> or \<open>unit\<close>), or
  else \<open>undefined\<close>.
\<close>

definition Object_prototype :: "string list" where
  "Object_prototype =
     [''constructor'', ''hasOwnProperty'', ''isPrototypeOf'', ''propertyIsEnumerable'',
      ''toLocaleString'', ''toString'', ''valueOf'', ''__proto__'',
      ''__defineGetter__'', ''__defineSetter__'', ''__lookupGetter__'', ''__lookupSetter__'']"

datatype property = Own threshold | Inherited | Undefined

definition THRESHOLDS_get :: "string \<Rightarrow> property" where
  "THRESHOLDS_get metric =
     (case map_of THRESHOLDS metric of
        Some t \<Rightarrow> Own t
      | None \<Rightarrow> if metric \<in> set Object_prototype then Inherited else Undefined)"

section \<open>Rating\<close>

text \<open>
  An absent value (\<open>null\<close> or \<open>undefined\<close>) is \<open>None\<close>. On an inherited property \<open>t\<close> is
  truthy and \<open>t.good\<close>, \<open>t.poor\<close> are \<open>undefined\<close>: both comparisons are false.
\<close>

definition getRating :: "string \<Rightarrow> real option \<Rightarrow> string" where
  "getRating metric val =
     (case val of
        None \<Rightarrow> ''na''
      | Some v \<Rightarrow>
          (case THRESHOLDS_get metric of
             Undefined \<Rightarrow> ''na''
           | Inherited \<Rightarrow> ''poor''
           | Own t \<Rightarrow>
               if v \<le> good t then ''good''
               else if v \<le> poor t then ''needs-improvement''
               else ''poor''))"

definition getScoreRating :: "real option \<Rightarrow> string" where
  "getScoreRating sc =
     (case sc of
        None \<Rightarrow> ''na''
      | Some s \<Rightarrow>
          if 90 \<le> s then ''good''
          else if 50 \<le> s then ''needs-improvement''
          else ''poor'')"

section \<open>Formatting\<close>

text \<open>
  On an inherited property \<open>t.unit\<close> is \<open>undefined\<close>, which \<open>+\<close> writes out as the text
  \<open>undefined\<close>.
\<close>

definition formatValue :: "(real \<Rightarrow> string) \<Rightarrow> string \<Rightarrow> real option \<Rightarrow> string" where
  "formatValue numstr metric val =
     (case val of
        None \<Rightarrow> ''N/A''
      | Some v \<Rightarrow>
          (case THRESHOLDS_get metric of
             Undefined \<Rightarrow> Number_toString numstr v
           | Inherited \<Rightarrow> Number_toString numstr (Math_round v) @ '' '' @ ''undefined''
           | Own t \<Rightarrow>
               if metric = ''CLS'' then toFixed numstr 3 v
               else if unit t = ''ms'' \<and> 1000 \<le> v then toFixed numstr 2 (fl (v / 1000)) @ '' s''
               else Number_toString numstr (Math_round v) @ '' '' @ unit t))"

section \<open>Metric extraction\<close>

text \<open>
  The provider's response, as far as \<open>extractMetrics\<close> reads it. A field that is missing,
  \<open>null\<close> or \<open>undefined\<close> is \<open>None\<close>; the two keyed blocks are maps from identifiers.
\<close>

record crux_metric =
  percentile :: "real option"

record loading_experience =
  metrics :: "(string \<rightharpoonup> crux_metric) option"

record audit =
  numericValue :: "real option"

record performance_category =
  score :: "real option"

record categories =
  performance :: "performance_category option"

record lighthouse_result =
  audits :: "(string \<rightharpoonup> audit) option"
  categories :: "categories option"

record response =
  loadingExperience :: "loading_experience option"
  lighthouseResult :: "lighthouse_result option"

record metric_set =
  score :: "real option"
  LCP :: "real option"
  FID :: "real option"
  CLS :: "real option"
  TTFB :: "real option"
  FCP :: "real option"
  INP :: "real option"

text \<open>The operator \<open>a ?? b\<close>: \<open>b\<close> when \<open>a\<close> is \<open>null\<close> or \<open>undefined\<close>.\<close>

definition nullish :: "'a option \<Rightarrow> 'a option \<Rightarrow> 'a option" where
  "nullish a b = (case a of Some v \<Rightarrow> Some v | None \<Rightarrow> b)"

definition crux_of :: "response \<Rightarrow> (string \<rightharpoonup> crux_metric)" where
  "crux_of data =
     (case loadingExperience data of
        None \<Rightarrow> Map.empty
      | Some le \<Rightarrow> (case metrics le of None \<Rightarrow> Map.empty | Some m \<Rightarrow> m))"

definition audits_of :: "response \<Rightarrow> (string \<rightharpoonup> audit)" where
  "audits_of data =
     (case lighthouseResult data of
        None \<Rightarrow> Map.empty
      | Some lr \<Rightarrow> (case audits lr of None \<Rightarrow> Map.empty | Some a \<Rightarrow> a))"

definition score_of :: "response \<Rightarrow> real option" where
  "score_of data =
     (case lighthouseResult data of
        None \<Rightarrow> None
      | Some lr \<Rightarrow>
          (case categories lr of
             None \<Rightarrow> None
           | Some cs \<Rightarrow>
               (case performance cs of
                  None \<Rightarrow> None
                | Some p \<Rightarrow> performance_category.score p)))"

text \<open>\<open>crux[key]?.percentile\<close> and \<open>audits[id]?.numericValue\<close>.\<close>

definition percentile_of :: "(string \<rightharpoonup> crux_metric) \<Rightarrow> string \<Rightarrow> real option" where
  "percentile_of crux key = (case crux key of None \<Rightarrow> None | Some m \<Rightarrow> percentile m)"

definition numericValue_of :: "(string \<rightharpoonup> audit) \<Rightarrow> string \<Rightarrow> real option" where
  "numericValue_of auds ident = (case auds ident of None \<Rightarrow> None | Some a \<Rightarrow> numericValue a)"

definition cruxVal :: "(string \<rightharpoonup> crux_metric) \<Rightarrow> string \<Rightarrow> real option" where
  "cruxVal crux key = nullish (percentile_of crux key) None"

definition numericAudit :: "(string \<rightharpoonup> audit) \<Rightarrow> string \<Rightarrow> real option" where
  "numericAudit auds ident =
     (case numericValue_of auds ident of None \<Rightarrow> None | Some v \<Rightarrow> Some (Math_round v))"

definition extractMetrics :: "response \<Rightarrow> metric_set" where
  "extractMetrics data =
     (let crux = crux_of data;
          auds = audits_of data;
          sc = score_of data;
          lcp = nullish (cruxVal crux ''LARGEST_CONTENTFUL_PAINT_MS'')
                  (numericAudit auds ''largest-contentful-paint'');
          fid = nullish (cruxVal crux ''FIRST_INPUT_DELAY_MS'') None;
          cls = (case percentile_of crux ''CUMULATIVE_LAYOUT_SHIFT_SCORE'' of
                   Some p \<Rightarrow> Some (fl (p / 100))
                 | None \<Rightarrow> numericAudit auds ''cumulative-layout-shift'');
          fcp = nullish (cruxVal crux ''FIRST_CONTENTFUL_PAINT_MS'')
                  (numericAudit auds ''first-contentful-paint'');
          inp = nullish (nullish (cruxVal crux ''INTERACTION_TO_NEXT_PAINT'')
                           (cruxVal crux ''EXPERIMENTAL_INTERACTION_TO_NEXT_PAINT'')) None;
          ttfb = nullish (cruxVal crux ''EXPERIMENTAL_TIME_TO_FIRST_BYTE'')
                   (numericAudit auds ''server-response-time'')
      in \<lparr>score = (case sc of Some s \<Rightarrow> Some (Math_round (fl (s * 100))) | None \<Rightarrow> None),
          LCP = lcp, FID = fid, CLS = cls, TTFB = ttfb, FCP = fcp, INP = inp\<rparr>)"

section \<open>The session's result list\<close>

text \<open>
  \<open>xs.splice(start, deleteCount)\<close> as the language defines it: \<open>NaN\<close> (here \<open>None\<close>, what
  \<open>parseInt\<close> gives for text that is no number) counts as 0, a negative start counts back
  from the end, and both numbers are clamped to the list.
\<close>

definition Array_splice :: "int option \<Rightarrow> int \<Rightarrow> 'a list \<Rightarrow> 'a list" where
  "Array_splice start deleteCount xs =
     (let len = int (length xs);
          rel = (case start of None \<Rightarrow> 0 | Some i \<Rightarrow> i);
          actualStart = (if rel < 0 then max (len + rel) 0 else min rel len);
          actualDeleteCount = min (max deleteCount 0) (len - actualStart)
      in take (nat actualStart) xs @ drop (nat (actualStart + actualDeleteCount)) xs)"

text \<open>The click handler of a card's remove button: \<open>currentResults.splice(idx, 1)\<close>.\<close>

definition removeAt :: "int option \<Rightarrow> 'a list \<Rightarrow> 'a list" where
  "removeAt idx currentResults = Array_splice idx 1 currentResults"

section \<open>The history store\<close>

record history_entry = metric_set +
  url :: string
  strategy :: string
  date :: string

text \<open>
  What \<open>JSON.parse\<close> can give for the text under the history key: a scalar, an object
  (its own properties), or an array, whose elements are history entries.
\<close>

datatype json =
    JNull
  | JBool bool
  | JNum real
  | JStr string
  | JObject "(string \<times> json) list"
  | JArray "history_entry list"

text \<open>
  The storage cell under \<open>HISTORY_KEY\<close>, by what the code can see of it: no item at all,
  text that \<open>JSON.parse\<close> rejects, or text that parses to a value. Writing
  \<open>JSON.stringify(v)\<close> leaves text that parses back to \<open>v\<close>.
\<close>

datatype cell = Missing | Garbled | Parsed json

datatype js_error = SyntaxError | TypeError | RangeError

definition MAX_HISTORY :: nat where
  "MAX_HISTORY = 50"

text \<open>
  \<open>JSON.parse(localStorage.getItem(HISTORY_KEY))\<close>: for a missing item \<open>getItem\<close> gives
  \<open>null\<close>, which \<open>JSON.parse\<close> reads as the text \<open>null\<close>.
\<close>

definition JSON_parse_item :: "cell \<Rightarrow> js_error + json" where
  "JSON_parse_item c =
     (case c of Missing \<Rightarrow> Inr JNull | Garbled \<Rightarrow> Inl SyntaxError | Parsed v \<Rightarrow> Inr v)"

definition truthy :: "json \<Rightarrow> bool" where
  "truthy v =
     (case v of
        JNull \<Rightarrow> False
      | JBool b \<Rightarrow> b
      | JNum x \<Rightarrow> x \<noteq> 0
      | JStr s \<Rightarrow> s \<noteq> ''''
      | JObject fs \<Rightarrow> True
      | JArray es \<Rightarrow> True)"

definition getHistory :: "cell \<Rightarrow> json" where
  "getHistory c =
     (case JSON_parse_item c of
        Inl e \<Rightarrow> JArray []
      | Inr v \<Rightarrow> if truthy v then v else JArray [])"

text \<open>
  \<open>saveToHistory\<close>: only an array has \<open>unshift\<close>; on any other value the call raises a
  \<open>TypeError\<close> before anything is written. The result is the cell after \<open>setItem\<close>.
\<close>

definition saveToHistory :: "history_entry \<Rightarrow> cell \<Rightarrow> js_error + cell" where
  "saveToHistory entry c =
     (case getHistory c of
        JArray history \<Rightarrow>
          (let history1 = entry # history;
               history2 = (if length history1 > MAX_HISTORY then take MAX_HISTORY history1
                           else history1)
           in Inr (Parsed (JArray history2)))
      | other \<Rightarrow> Inl TypeError)"

text \<open>A run of appends, stopping at the first error.\<close>

fun saveAll :: "history_entry list \<Rightarrow> cell \<Rightarrow> js_error + cell" where
  "saveAll [] c = Inr c"
| "saveAll (e # es) c = (case saveToHistory e c of Inl err \<Rightarrow> Inl err | Inr c' \<Rightarrow> saveAll es c')"

section \<open>The CSV export\<close>

definition dquote :: char where
  "dquote = CHR 0x22"

definition newline :: char where
  "newline = CHR 0x0A"

fun join :: "string \<Rightarrow> string list \<Rightarrow> string" where
  "join sep [] = ''''"
| "join sep [x] = x"
| "join sep (x # y # ys) = x @ sep @ join sep (y # ys)"

text \<open>One field: \<open>String(v).replace(/"/g, '""')\<close> between two quotes.\<close>

definition csv_field :: "string \<Rightarrow> string" where
  "csv_field v = dquote # concat (map (\<lambda>c. if c = dquote then [dquote, dquote] else [c]) v) @ [dquote]"

definition csv_text :: "string list list \<Rightarrow> string" where
  "csv_text table = join [newline] (map (\<lambda>r. join '','' (map csv_field r)) table)"

definition headers :: "string list" where
  "headers = [''Date'', ''URL'', ''Strategy'', ''Score'', ''LCP'', ''FID'', ''CLS'', ''TTFB'', ''FCP'', ''INP'']"

text \<open>\<open>String(v ?? '')\<close> of a numeric field.\<close>

definition field_text :: "(real \<Rightarrow> string) \<Rightarrow> real option \<Rightarrow> string" where
  "field_text numstr v = (case v of None \<Rightarrow> '''' | Some x \<Rightarrow> Number_toString numstr x)"

text \<open>
  One row of the table. \<open>new Date(h.date).toISOString()\<close> is the runtime's; \<open>isoDate\<close>
  stands for it, \<open>None\<close> where the text is no date and \<open>toISOString\<close> raises a
  \<open>RangeError\<close>.
\<close>

definition row_of :: "(real \<Rightarrow> string) \<Rightarrow> (string \<Rightarrow> string option) \<Rightarrow> history_entry \<Rightarrow> js_error + string list" where
  "row_of numstr isoDate h =
     (case isoDate (date h) of
        None \<Rightarrow> Inl RangeError
      | Some d \<Rightarrow>
          Inr [d, url h, strategy h, field_text numstr (score h), field_text numstr (LCP h),
               field_text numstr (FID h), field_text numstr (CLS h), field_text numstr (TTFB h),
               field_text numstr (FCP h), field_text numstr (INP h)])"

fun rows_of :: "(real \<Rightarrow> string) \<Rightarrow> (string \<Rightarrow> string option) \<Rightarrow> history_entry list \<Rightarrow> js_error + string list list" where
  "rows_of numstr isoDate [] = Inr []"
| "rows_of numstr isoDate (h # hs) =
     (case row_of numstr isoDate h of
        Inl e \<Rightarrow> Inl e
      | Inr r \<Rightarrow> (case rows_of numstr isoDate hs of Inl e \<Rightarrow> Inl e | Inr rs \<Rightarrow> Inr (r # rs)))"

text \<open>
  \<open>exportHistoryCSV\<close>: \<open>Inr None\<close> when it returns without producing anything,
  \<open>Inr (Some csv)\<close> when it hands \<open>csv\<close> to the download. A value without a \<open>length\<close> of 0
  goes on to \<open>history.map\<close>, which only an array has.
\<close>

definition exportHistoryCSV :: "(real \<Rightarrow> string) \<Rightarrow> (string \<Rightarrow> string option) \<Rightarrow> cell \<Rightarrow> js_error + string option" where
  "exportHistoryCSV numstr isoDate c =
     (case getHistory c of
        JArray history \<Rightarrow>
          if length history = 0 then Inr None
          else (case rows_of numstr isoDate history of
                  Inl e \<Rightarrow> Inl e
                | Inr rows \<Rightarrow> Inr (Some (csv_text (headers # rows))))
      | JNull \<Rightarrow> Inl TypeError
      | JStr s \<Rightarrow> if length s = 0 then Inr None else Inl TypeError
      | JObject fs \<Rightarrow> if map_of fs ''length'' = Some (JNum 0) then Inr None else Inl TypeError
      | other \<Rightarrow> Inl TypeError)"

subsection \<open>Reading CSV back\<close>




section \<open>Example responses\<close>

text \<open>
  A response with field data for LCP only, one with lab data for LCP only, one with
  neither, and one whose only CLS figure is the lab value 0.08.
\<close>

definition field_lcp_only :: response where
  "field_lcp_only =
     \<lparr>loadingExperience =
        Some \<lparr>metrics = Some [''LARGEST_CONTENTFUL_PAINT_MS'' \<mapsto> \<lparr>percentile = Some 2600\<rparr>]\<rparr>,
      lighthouseResult = None\<rparr>"

definition lab_lcp_only :: response where
  "lab_lcp_only =
     \<lparr>loadingExperience = None,
      lighthouseResult =
        Some \<lparr>audits = Some [''largest-contentful-paint'' \<mapsto> \<lparr>numericValue = Some (fl (31237 / 10))\<rparr>],
              categories = None\<rparr>\<rparr>"

definition no_data :: response where
  "no_data = \<lparr>loadingExperience = None, lighthouseResult = None\<rparr>"

definition lab_cls_only :: response where
  "lab_cls_only =
     \<lparr>loadingExperience = None,
      lighthouseResult =
        Some \<lparr>audits = Some [''cumulative-layout-shift'' \<mapsto> \<lparr>numericValue = Some (fl (8 / 100))\<rparr>],
              categories = None\<rparr>\<rparr>"

text \<open>
  Two history entries: the analysis of \<open>example.com\<close> on mobile with score 95 and LCP
  1200, and an older one.
\<close>

definition example_entry :: history_entry where
  "example_entry =
     \<lparr>score = Some 95, LCP = Some 1200, FID = None, CLS = None, TTFB = None, FCP = None,
      INP = None, url = ''example.com'', strategy = ''mobile'',
      date = ''2024-05-01T10:00:00.000Z''\<rparr>"

definition older_entry :: history_entry where
  "older_entry =
     \<lparr>score = None, LCP = None, FID = None, CLS = Some (fl (15 / 100)), TTFB = None, FCP = None,
      INP = None, url = [CHR ''a'', dquote, CHR ''b''], strategy = ''desktop'',
      date = ''2024-04-30T09:30:00.000Z''\<rparr>"

section \<open>Properties of the rating engine\<close>

lemma THRESHOLDS_get_Own:
  "THRESHOLDS_get k = Own t \<longleftrightarrow> map_of THRESHOLDS k = Some t"
  by (simp add: THRESHOLDS_get_def split: option.splits)










text \<open>
  C6. \<open>getScoreRating\<close>: an absent score is not-applicable; a present score of at least
  90 is good, one from 50 up to but not 90 needs improvement, one below 50 is poor; so
  90 is good, 89 and 50 need improvement and 49 is poor.
\<close>

theorem getScoreRating_bands:
  "getScoreRating None = ''na''
   \<and> (getScoreRating (Some s) = ''good'' \<longleftrightarrow> 90 \<le> s)
   \<and> (getScoreRating (Some s) = ''needs-improvement'' \<longleftrightarrow> 50 \<le> s \<and> s < 90)
   \<and> (getScoreRating (Some s) = ''poor'' \<longleftrightarrow> s < 50)
   \<and> getScoreRating (Some 90) = ''good''
   \<and> getScoreRating (Some 89) = ''needs-improvement''
   \<and> getScoreRating (Some 50) = ''needs-improvement''
   \<and> getScoreRating (Some 49) = ''poor''"
  by (simp add: getScoreRating_def)

section \<open>Properties of the formatter\<close>

text \<open>
  C10. The absence check comes first: for every kind, in the table or not, an absent
  value is shown as \<open>N/A\<close>; the number's own text is what a present value gets when the
  table has nothing under the kind.
\<close>

theorem formatValue_absent_first:
  "formatValue numstr k None = ''N/A''
   \<and> (THRESHOLDS_get k = Undefined \<longrightarrow> formatValue numstr k (Some v) = Number_toString numstr v)"
  by (simp add: formatValue_def)

lemma show_nat_examples:
  "show_nat 100 = ''100''" "show_nat 123 = ''123''" "show_nat 180 = ''180''"
  "show_nat 250 = ''250''" "show_nat 1000 = ''1000''" "show_nat 0 = ''0''" "show_nat 7 = ''7''"
  by (simp_all add: show_nat.simps digit_def)

theorem formatValue_absent_first_witness:
  "THRESHOLDS_get ''XYZ'' = Undefined
   \<and> formatValue (\<lambda>x. []) ''XYZ'' None = ''N/A''
   \<and> formatValue (\<lambda>x. []) ''XYZ'' (Some 7) = ''7''"
proof -
  have u: "THRESHOLDS_get ''XYZ'' = Undefined"
    by (simp add: THRESHOLDS_get_def THRESHOLDS_def Object_prototype_def)
  have s: "Number_toString (\<lambda>x. []) 7 = ''7''"
    by (simp add: Number_toString_def show_int_def show_nat_examples)
  from formatValue_absent_first [of "\<lambda>x. []" "''XYZ''" 7] u s show ?thesis
    by simp
qed

subsection \<open>The digits of \<open>toFixed\<close>\<close>

lemma length_show_nat_pos: "0 < length (show_nat n)"
  by (subst show_nat.simps) simp

lemma length_low_digits: "length (low_digits f n) = f"
  by (induction f arbitrary: n) simp_all

lemma digit_mod: "digit (n mod 10) = digit n"
  by (simp add: digit_def)

lemma padded_digits:
  "(if length (show_nat n) \<le> f
    then replicate (f + 1 - length (show_nat n)) CHR ''0'' @ show_nat n
    else show_nat n) = show_nat (n div 10 ^ f) @ low_digits f n"
proof (induction f arbitrary: n)
  case 0
  then show ?case using length_show_nat_pos [of n] by simp
next
  case (Suc f)
  show ?case
  proof (cases "n < 10")
    case True
    then have n: "show_nat n = [digit n]" and d: "n div 10 = 0"
      by (simp_all add: show_nat.simps)
    have z: "show_nat 0 = ''0''"
      by (simp add: show_nat.simps digit_def)
    from Suc [of 0] have "show_nat 0 @ low_digits f 0 = replicate f CHR ''0'' @ ''0''"
      using z by (simp split: if_splits)
    then have "show_nat (n div 10 ^ Suc f) @ low_digits (Suc f) n = replicate f CHR ''0'' @ ''0'' @ [digit n]"
      using d by (simp add: div_mult2_eq digit_mod)
    moreover have "replicate f CHR ''0'' @ ''0'' = replicate (Suc f) CHR ''0''"
      by (simp add: replicate_append_same)
    ultimately show ?thesis using n by simp
  next
    case False
    then have n: "show_nat n = show_nat (n div 10) @ [digit (n mod 10)]"
      by (subst show_nat.simps) simp
    have "show_nat (n div 10 ^ Suc f) @ low_digits (Suc f) n
            = (show_nat (n div 10 div 10 ^ f) @ low_digits f (n div 10)) @ [digit (n mod 10)]"
      by (simp add: div_mult2_eq)
    also have "\<dots> = (if length (show_nat (n div 10)) \<le> f
                     then replicate (f + 1 - length (show_nat (n div 10))) CHR ''0'' @ show_nat (n div 10)
                     else show_nat (n div 10)) @ [digit (n mod 10)]"
      by (simp only: Suc)
    finally show ?thesis
      by (simp add: n)
  qed
qed

lemma toFixed_digits:
  assumes "0 < f" and "\<bar>x\<bar> < 10 ^ 21"
  shows "toFixed numstr f x =
           (if x < 0 then ''-'' else '''') @ show_nat (nat \<lfloor>\<bar>x\<bar> * 10 ^ f + 1 / 2\<rfloor> div 10 ^ f)
             @ ''.'' @ low_digits f (nat \<lfloor>\<bar>x\<bar> * 10 ^ f + 1 / 2\<rfloor>)"
proof -
  define n where "n = nat \<lfloor>\<bar>x\<bar> * 10 ^ f + 1 / 2\<rfloor>"
  define m' where "m' = (if length (show_nat n) \<le> f
    then replicate (f + 1 - length (show_nat n)) CHR ''0'' @ show_nat n else show_nat n)"
  have m': "m' = show_nat (n div 10 ^ f) @ low_digits f n"
    unfolding m'_def by (rule padded_digits)
  have "toFixed numstr f x = (if x < 0 then ''-'' else '''') @ take (length m' - f) m' @ ''.'' @ drop (length m' - f) m'"
    using assms by (simp add: toFixed_def Let_def n_def m'_def)
  also have "take (length m' - f) m' = show_nat (n div 10 ^ f)"
    by (simp add: m' length_low_digits)
  also have "drop (length m' - f) m' = low_digits f n"
    by (simp add: m' length_low_digits)
  finally show ?thesis by (simp add: n_def)
qed

text \<open>Rounding to a double keeps the sign.\<close>

lemma pow2_pos: "0 < pow2 q"
  by (simp add: pow2_def)

lemma round_half_even_nonneg: "0 \<le> y \<Longrightarrow> 0 \<le> round_half_even y"
  by (auto simp: round_half_even_def Let_def)

lemma fl_nonneg:
  assumes "0 \<le> x"
  shows "0 \<le> fl x"
proof (cases "x = 0")
  case True
  then show ?thesis by (simp add: fl_def)
next
  case False
  define q where "q = max (expo x - 52) (- 1074)"
  have "0 \<le> x / pow2 q"
    using assms pow2_pos [of q] by simp
  then have "0 \<le> round_half_even (x / pow2 q)"
    by (rule round_half_even_nonneg)
  then have "0 \<le> of_int (round_half_even (x / pow2 q)) * pow2 q"
    using pow2_pos [of q] by simp
  then show ?thesis
    using False by (simp add: fl_def Let_def q_def)
qed

lemma formatValue_seconds:
  assumes "map_of THRESHOLDS k = Some t" and "unit t = ''ms''"
    and "1000 \<le> v" and "fl (v / 1000) < 10 ^ 21"
  shows "formatValue numstr k (Some v) =
           show_nat (nat \<lfloor>fl (v / 1000) * 100 + 1 / 2\<rfloor> div 100) @ ''.''
             @ low_digits 2 (nat \<lfloor>fl (v / 1000) * 100 + 1 / 2\<rfloor>) @ '' s''"
proof -
  have k: "k \<noteq> ''CLS''"
    using assms(1,2) by (auto simp: THRESHOLDS_def split: if_splits)
  have nn: "0 \<le> fl (v / 1000)"
    using assms(3) by (intro fl_nonneg) simp
  have "toFixed numstr 2 (fl (v / 1000)) =
          show_nat (nat \<lfloor>fl (v / 1000) * 100 + 1 / 2\<rfloor> div 100) @ ''.''
            @ low_digits 2 (nat \<lfloor>fl (v / 1000) * 100 + 1 / 2\<rfloor>)"
    using toFixed_digits [of 2 "fl (v / 1000)" numstr] nn assms(4) by simp
  then show ?thesis
    using assms(1,2,3) k by (simp add: formatValue_def THRESHOLDS_get_def)
qed

lemma formatValue_rounded:
  assumes "map_of THRESHOLDS k = Some t" and "unit t = ''ms''"
    and "v < 1000" and "- (2 ^ 53) \<le> v"
  shows "formatValue numstr k (Some v) = show_int \<lfloor>v + 1 / 2\<rfloor> @ '' ms''"
proof -
  have k: "k \<noteq> ''CLS''"
    using assms(1,2) by (auto simp: THRESHOLDS_def split: if_splits)
  have "\<lfloor>v + 1 / 2\<rfloor> \<le> 1000"
    using assms(3) by (simp add: floor_le_iff)
  then have a: "\<lfloor>v + 1 / 2\<rfloor> \<le> 2 ^ 53"
    by (rule order_trans) simp
  have "- (2 ^ 53) \<le> \<lfloor>v + 1 / 2\<rfloor>"
    using assms(4) by (simp add: le_floor_iff)
  then have b: "- \<lfloor>v + 1 / 2\<rfloor> \<le> 2 ^ 53"
    by (simp only: minus_le_iff)
  from a b have "\<bar>\<lfloor>v + 1 / 2\<rfloor>\<bar> \<le> 2 ^ 53"
    by (rule abs_leI)
  then have "\<bar>real_of_int \<lfloor>v + 1 / 2\<rfloor>\<bar> \<le> 2 ^ 53"
    by (metis of_int_abs of_int_le_iff of_int_numeral of_int_power)
  then have "Number_toString numstr (Math_round v) = show_int \<lfloor>v + 1 / 2\<rfloor>"
    by (simp add: Number_toString_def Math_round_def)
  then show ?thesis
    using assms(1,2,3) k by (simp add: formatValue_def THRESHOLDS_get_def)
qed

lemma formatValue_CLS:
  assumes "\<bar>v\<bar> < 10 ^ 21"
  shows "formatValue numstr ''CLS'' (Some v) =
           (if v < 0 then ''-'' else []) @ show_nat (nat \<lfloor>\<bar>v\<bar> * 1000 + 1 / 2\<rfloor> div 1000)
             @ ''.'' @ low_digits 3 (nat \<lfloor>\<bar>v\<bar> * 1000 + 1 / 2\<rfloor>)"
  using toFixed_digits [of 3 v numstr] assms
  by (simp add: formatValue_def THRESHOLDS_get_def THRESHOLDS_def)

text \<open>
  The quotients of the examples, as doubles, and what the formatter makes of them. 1005
  shows the rounding of the division at work: the double nearest to 1.005 lies below
  it, so the text is \<open>1.00 s\<close>.
\<close>

lemma fl_9_5: "fl (9 / 5) = 8106479329266893 / 2 ^ 52"
  by (simp add: fl_def expo_def compute_floorlog pow2_def round_half_even_def Let_def)

lemma fl_5_2: "fl (5 / 2) = 5 / 2"
  by (simp add: fl_def expo_def compute_floorlog pow2_def round_half_even_def Let_def)

lemma fl_1234: "fl (617 / 5000) = 8891907104280307 / 2 ^ 56"
  by (simp add: fl_def expo_def compute_floorlog pow2_def round_half_even_def Let_def)

lemma fl_201_200: "fl (201 / 200) = 4526117625507348 / 2 ^ 52"
  by (simp add: fl_def expo_def compute_floorlog pow2_def round_half_even_def Let_def)

lemma LCP_1800_in_seconds: "formatValue numstr ''LCP'' (Some 1800) = ''1.80 s''"
  by (simp add: formatValue_def THRESHOLDS_get_def THRESHOLDS_def toFixed_def fl_9_5 Let_def
      show_nat_examples)

lemma LCP_2500_in_seconds: "formatValue numstr ''LCP'' (Some 2500) = ''2.50 s''"
  by (simp add: formatValue_def THRESHOLDS_get_def THRESHOLDS_def toFixed_def fl_5_2 Let_def
      show_nat_examples)

lemma CLS_1234_three_decimals: "formatValue numstr ''CLS'' (Some (fl (1234 / 10000))) = ''0.123''"
  by (simp add: formatValue_def THRESHOLDS_get_def THRESHOLDS_def toFixed_def fl_1234 Let_def
      show_nat_examples)

lemma LCP_1005_in_seconds: "formatValue numstr ''LCP'' (Some 1005) = ''1.00 s''"
  by (simp add: formatValue_def THRESHOLDS_get_def THRESHOLDS_def toFixed_def Let_def
      show_nat_examples fl_201_200)

lemma LCP_999_5_rounded: "formatValue numstr ''LCP'' (Some 999.5) = ''1000 ms''"
  by (simp add: formatValue_def THRESHOLDS_get_def THRESHOLDS_def Number_toString_def Math_round_def
      show_int_def show_nat_examples)

lemma low_digits_2: "low_digits 2 n = [digit (n div 10 mod 10), digit (n mod 10)]"
  unfolding numeral_2_eq_2 by simp

lemma low_digits_3:
  "low_digits 3 n = [digit (n div 10 div 10 mod 10), digit (n div 10 mod 10), digit (n mod 10)]"
  unfolding numeral_3_eq_3 by simp

lemma nearest_hundredth:
  assumes "0 \<le> y"
  shows "\<bar>real (nat \<lfloor>y * 100 + 1 / 2\<rfloor>) / 100 - y\<bar> \<le> 1 / 200"
proof -
  define z :: real where "z = of_int \<lfloor>y * 100 + 1 / 2\<rfloor>"
  have "0 \<le> \<lfloor>y * 100 + 1 / 2\<rfloor>"
    using assms by simp
  then have n: "real (nat \<lfloor>y * 100 + 1 / 2\<rfloor>) = z"
    by (simp add: z_def)
  have lo: "z \<le> y * 100 + 1 / 2"
    unfolding z_def by (rule of_int_floor_le)
  have hi: "y * 100 + 1 / 2 < z + 1"
    unfolding z_def by linarith
  have "z / 100 - y \<le> 1 / 200"
    using lo by simp
  moreover have "- (z / 100 - y) \<le> 1 / 200"
    using hi by simp
  ultimately have "\<bar>z / 100 - y\<bar> \<le> 1 / 200"
    by (rule abs_leI)
  then show ?thesis
    by (simp only: n)
qed

text \<open>
  C5, as the code has it. A value of at least 1000 is shown in seconds whatever the
  example in the claim says: 1800 gives \<open>1.80 s\<close>, not \<open>1800 ms\<close>. For a kind whose unit is
  \<open>ms\<close>: a value of at least 1000, with a quotient by 1000 below \<open>10 ^ 21\<close>, is shown as the
  nearest hundredth of that quotient, with exactly two decimals and the suffix \<open>s\<close>; a
  value below 1000 (and not below \<open>- 2 ^ 53\<close>) is shown as the nearest integer, a space and
  the unit. \<open>CLS\<close> below \<open>10 ^ 21\<close> in magnitude has three decimals and no suffix. So 2500
  gives \<open>2.50 s\<close>, \<open>CLS\<close> 0.1234 gives \<open>0.123\<close>, and an absent \<open>LCP\<close> gives \<open>N/A\<close>.
\<close>

theorem formatValue_display:
  "(map_of THRESHOLDS k = Some t \<and> unit t = ''ms'' \<and> 1000 \<le> v \<and> fl (v / 1000) < 10 ^ 21 \<longrightarrow>
      formatValue numstr k (Some v) =
        show_nat (nat \<lfloor>fl (v / 1000) * 100 + 1 / 2\<rfloor> div 100) @ ''.''
          @ low_digits 2 (nat \<lfloor>fl (v / 1000) * 100 + 1 / 2\<rfloor>) @ '' s''
      \<and> \<bar>real (nat \<lfloor>fl (v / 1000) * 100 + 1 / 2\<rfloor>) / 100 - fl (v / 1000)\<bar> \<le> 1 / 200)
   \<and> (map_of THRESHOLDS k = Some t \<and> unit t = ''ms'' \<and> w < 1000 \<and> - (2 ^ 53) \<le> w \<longrightarrow>
      formatValue numstr k (Some w) = show_int \<lfloor>w + 1 / 2\<rfloor> @ '' '' @ unit t)
   \<and> (\<bar>c\<bar> < 10 ^ 21 \<longrightarrow>
      formatValue numstr ''CLS'' (Some c) =
        (if c < 0 then ''-'' else []) @ show_nat (nat \<lfloor>\<bar>c\<bar> * 1000 + 1 / 2\<rfloor> div 1000)
          @ ''.'' @ low_digits 3 (nat \<lfloor>\<bar>c\<bar> * 1000 + 1 / 2\<rfloor>))
   \<and> formatValue numstr ''LCP'' (Some 1800) = ''1.80 s''
   \<and> formatValue numstr ''LCP'' (Some 2500) = ''2.50 s''
   \<and> formatValue numstr ''CLS'' (Some (fl (1234 / 10000))) = ''0.123''
   \<and> formatValue numstr ''LCP'' None = ''N/A''"
proof -
  have sec: "formatValue numstr k (Some v) =
        show_nat (nat \<lfloor>fl (v / 1000) * 100 + 1 / 2\<rfloor> div 100) @ ''.''
          @ low_digits 2 (nat \<lfloor>fl (v / 1000) * 100 + 1 / 2\<rfloor>) @ '' s''
      \<and> \<bar>real (nat \<lfloor>fl (v / 1000) * 100 + 1 / 2\<rfloor>) / 100 - fl (v / 1000)\<bar> \<le> 1 / 200"
    if "map_of THRESHOLDS k = Some t" "unit t = ''ms''" "1000 \<le> v" "fl (v / 1000) < 10 ^ 21"
  proof -
    have "0 \<le> fl (v / 1000)"
      using that(3) by (intro fl_nonneg) simp
    then show ?thesis
      using formatValue_seconds [OF that] nearest_hundredth [of "fl (v / 1000)"] by simp
  qed
  have rnd: "formatValue numstr k (Some w) = show_int \<lfloor>w + 1 / 2\<rfloor> @ '' '' @ unit t"
    if "map_of THRESHOLDS k = Some t" "unit t = ''ms''" "w < 1000" "- (2 ^ 53) \<le> w"
    using formatValue_rounded [OF that] that(2) by simp
  have cls: "formatValue numstr ''CLS'' (Some c) =
        (if c < 0 then ''-'' else []) @ show_nat (nat \<lfloor>\<bar>c\<bar> * 1000 + 1 / 2\<rfloor> div 1000)
          @ ''.'' @ low_digits 3 (nat \<lfloor>\<bar>c\<bar> * 1000 + 1 / 2\<rfloor>)"
    if "\<bar>c\<bar> < 10 ^ 21"
    using that by (rule formatValue_CLS)
  have na: "formatValue numstr ''LCP'' None = ''N/A''"
    by (simp add: formatValue_def)
  show ?thesis
    apply (intro conjI impI)
    subgoal using sec by simp
    subgoal using sec by simp
    subgoal using rnd by simp
    subgoal using cls by simp
    subgoal by (rule LCP_1800_in_seconds)
    subgoal by (rule LCP_2500_in_seconds)
    subgoal using CLS_1234_three_decimals by simp
    subgoal by (rule na)
    done
qed

text \<open>The claim's example \<open>format('LCP', 1800) = "1800 ms"\<close> does not hold of the code.\<close>

theorem formatValue_LCP_1800_not_ms:
  "formatValue (\<lambda>x. []) ''LCP'' (Some 1800) \<noteq> ''1800 ms''"
  by (simp add: LCP_1800_in_seconds)

theorem formatValue_display_witness:
  "map_of THRESHOLDS ''FCP'' = Some \<lparr>good = 1800, poor = 3000, unit = ''ms'', label = ''First Contentful Paint''\<rparr>
   \<and> (1000 :: real) \<le> 1005 \<and> fl (1005 / 1000) < 10 ^ 21
   \<and> formatValue (\<lambda>x. []) ''FCP'' (Some 1005) = ''1.00 s''
   \<and> (999.5 :: real) < 1000 \<and> - (2 ^ 53) \<le> (999.5 :: real)
   \<and> formatValue (\<lambda>x. []) ''FCP'' (Some 999.5) = ''1000 ms''
   \<and> \<bar>- 1 / 2 :: real\<bar> < 10 ^ 21
   \<and> formatValue (\<lambda>x. []) ''CLS'' (Some (- 1 / 2)) = ''-0.500''"
proof -
  let ?t = "\<lparr>good = 1800, poor = 3000, unit = ''ms'', label = ''First Contentful Paint''\<rparr>"
  have t: "map_of THRESHOLDS ''FCP'' = Some ?t" "unit ?t = ''ms''"
    by (simp_all add: THRESHOLDS_def)
  have d2: "low_digits 2 100 = ''00''" and d3: "low_digits 3 500 = ''500''"
    by (simp_all add: low_digits_2 low_digits_3 digit_def)
  have m: "show_nat 1 = ''1''" "show_nat (Suc 0) = ''1''"
    by (simp_all add: show_nat.simps digit_def)
  from formatValue_display [of "''FCP''" ?t 1005 "\<lambda>x. []" "999.5" "- 1 / 2"] t
  show ?thesis
    by (simp add: show_int_def show_nat_examples fl_201_200 d2 d3 m)
qed

section \<open>Properties of the extractor\<close>

lemma floor_half_nearest: "\<bar>of_int \<lfloor>x + 1 / 2\<rfloor> - x\<bar> \<le> (1 / 2 :: real)"
proof -
  define z :: real where "z = of_int \<lfloor>x + 1 / 2\<rfloor>"
  have lo: "z \<le> x + 1 / 2"
    unfolding z_def by (rule of_int_floor_le)
  have hi: "x + 1 / 2 < z + 1"
    unfolding z_def by linarith
  have "z - x \<le> 1 / 2"
    using lo by simp
  moreover have "- (z - x) \<le> 1 / 2"
    using hi by simp
  ultimately have "\<bar>z - x\<bar> \<le> 1 / 2"
    by (rule abs_leI)
  then show ?thesis
    by (simp only: z_def)
qed

text \<open>
  C3. LCP follows the fallback chain: a field percentile for
  \<open>LARGEST_CONTENTFUL_PAINT_MS\<close>, when present, is the output unchanged; otherwise a lab
  \<open>numericValue\<close> of the \<open>largest-contentful-paint\<close> audit, when present, is the output
  rounded to the nearest integer (within one half of the value); otherwise LCP is absent.
\<close>

theorem extractMetrics_LCP:
  "(percentile_of (crux_of data) ''LARGEST_CONTENTFUL_PAINT_MS'' = Some p \<longrightarrow>
      LCP (extractMetrics data) = Some p)
   \<and> (percentile_of (crux_of data) ''LARGEST_CONTENTFUL_PAINT_MS'' = None
      \<and> numericValue_of (audits_of data) ''largest-contentful-paint'' = Some x \<longrightarrow>
      LCP (extractMetrics data) = Some (of_int \<lfloor>x + 1 / 2\<rfloor>)
      \<and> \<bar>of_int \<lfloor>x + 1 / 2\<rfloor> - x\<bar> \<le> 1 / 2)
   \<and> (percentile_of (crux_of data) ''LARGEST_CONTENTFUL_PAINT_MS'' = None
      \<and> numericValue_of (audits_of data) ''largest-contentful-paint'' = None \<longrightarrow>
      LCP (extractMetrics data) = None)"
proof (intro conjI impI)
  assume "percentile_of (crux_of data) ''LARGEST_CONTENTFUL_PAINT_MS'' = Some p"
  then show "LCP (extractMetrics data) = Some p"
    by (simp add: extractMetrics_def Let_def nullish_def cruxVal_def)
next
  assume "percentile_of (crux_of data) ''LARGEST_CONTENTFUL_PAINT_MS'' = None
    \<and> numericValue_of (audits_of data) ''largest-contentful-paint'' = Some x"
  then show "LCP (extractMetrics data) = Some (of_int \<lfloor>x + 1 / 2\<rfloor>)"
    by (simp add: extractMetrics_def Let_def nullish_def cruxVal_def numericAudit_def Math_round_def)
next
  show "\<bar>of_int \<lfloor>x + 1 / 2\<rfloor> - x\<bar> \<le> 1 / 2"
    by (rule floor_half_nearest)
next
  assume "percentile_of (crux_of data) ''LARGEST_CONTENTFUL_PAINT_MS'' = None
    \<and> numericValue_of (audits_of data) ''largest-contentful-paint'' = None"
  then show "LCP (extractMetrics data) = None"
    by (simp add: extractMetrics_def Let_def nullish_def cruxVal_def numericAudit_def)
qed

lemma fl_31237_10: "fl (31237 / 10) = 3434544471683891 / 2 ^ 40"
  by (simp add: fl_def expo_def compute_floorlog pow2_def round_half_even_def Let_def)

lemma fl_2_25: "fl (2 / 25) = 5764607523034235 / 2 ^ 56"
  by (simp add: fl_def expo_def compute_floorlog pow2_def round_half_even_def Let_def)

lemma fl_1_10: "fl (1 / 10) = 3602879701896397 / 2 ^ 55"
  by (simp add: fl_def expo_def compute_floorlog pow2_def round_half_even_def Let_def)


theorem extractMetrics_LCP_witness:
  "percentile_of (crux_of field_lcp_only) ''LARGEST_CONTENTFUL_PAINT_MS'' = Some 2600
   \<and> LCP (extractMetrics field_lcp_only) = Some 2600
   \<and> percentile_of (crux_of lab_lcp_only) ''LARGEST_CONTENTFUL_PAINT_MS'' = None
   \<and> numericValue_of (audits_of lab_lcp_only) ''largest-contentful-paint'' = Some (fl (31237 / 10))
   \<and> LCP (extractMetrics lab_lcp_only) = Some 3124
   \<and> percentile_of (crux_of no_data) ''LARGEST_CONTENTFUL_PAINT_MS'' = None
   \<and> numericValue_of (audits_of no_data) ''largest-contentful-paint'' = None
   \<and> LCP (extractMetrics no_data) = None"
proof -
  have a: "percentile_of (crux_of field_lcp_only) ''LARGEST_CONTENTFUL_PAINT_MS'' = Some 2600"
    by (simp add: percentile_of_def crux_of_def field_lcp_only_def)
  have b: "percentile_of (crux_of lab_lcp_only) ''LARGEST_CONTENTFUL_PAINT_MS'' = None"
    "numericValue_of (audits_of lab_lcp_only) ''largest-contentful-paint'' = Some (fl (31237 / 10))"
    by (simp_all add: percentile_of_def crux_of_def numericValue_of_def audits_of_def lab_lcp_only_def)
  have c: "percentile_of (crux_of no_data) ''LARGEST_CONTENTFUL_PAINT_MS'' = None"
    "numericValue_of (audits_of no_data) ''largest-contentful-paint'' = None"
    by (simp_all add: percentile_of_def crux_of_def numericValue_of_def audits_of_def no_data_def)
  have r: "\<lfloor>fl (31237 / 10) + 1 / 2\<rfloor> = 3124"
    by (simp add: fl_31237_10)
  from extractMetrics_LCP [of field_lcp_only 2600]
    extractMetrics_LCP [of lab_lcp_only _ "fl (31237 / 10)"]
    extractMetrics_LCP [of no_data] a b c r
  show ?thesis by simp
qed

lemma CLS_field_branch:
  assumes "percentile_of (crux_of data) ''CUMULATIVE_LAYOUT_SHIFT_SCORE'' = Some p"
  shows "CLS (extractMetrics data) = Some (fl (p / 100))"
  using assms by (simp add: extractMetrics_def Let_def)

lemma CLS_lab_branch:
  assumes "percentile_of (crux_of data) ''CUMULATIVE_LAYOUT_SHIFT_SCORE'' = None"
  shows "CLS (extractMetrics data) =
           map_option Math_round (numericValue_of (audits_of data) ''cumulative-layout-shift'')"
  using assms by (simp add: extractMetrics_def Let_def numericAudit_def split: option.splits)

text \<open>
  C4. The field branch divides the percentile by 100 (\<open>CLS_field_branch\<close>). The
  lab branch does not pass the value through: it goes through \<open>numericAudit\<close>, which
  rounds to an integer, so a lab CLS of 0.08 comes out as 0 (and is then rated good).
\<close>

theorem extractMetrics_CLS_lab_rounded:
  "numericValue_of (audits_of lab_cls_only) ''cumulative-layout-shift'' = Some (fl (8 / 100))
   \<and> CLS (extractMetrics lab_cls_only) = Some 0
   \<and> getRating ''CLS'' (CLS (extractMetrics lab_cls_only)) = ''good''"
  by (simp add: extractMetrics_def Let_def numericAudit_def numericValue_of_def audits_of_def
      percentile_of_def crux_of_def lab_cls_only_def Math_round_def fl_2_25
      getRating_def THRESHOLDS_get_def THRESHOLDS_def fl_1_10)

section \<open>Properties of the session's result list\<close>

text \<open>
  C9, as the code has it. An index at or beyond the length leaves the list as it is, and
  an index in range removes exactly the element at that position, the others keeping
  their order. An index below zero is no no-op: \<open>splice\<close> counts it back from the end
  (and takes the first element when it reaches before the start), and an index that is
  no number at all counts as 0.
\<close>

theorem removeAt_by_index:
  "(int (length xs) \<le> i \<longrightarrow> removeAt (Some i) xs = xs)
   \<and> (0 \<le> j \<and> j < int (length xs) \<longrightarrow>
        removeAt (Some j) xs = take (nat j) xs @ drop (Suc (nat j)) xs)
   \<and> (- int (length xs) \<le> k \<and> k < 0 \<longrightarrow>
        removeAt (Some k) xs =
          take (nat (int (length xs) + k)) xs @ drop (Suc (nat (int (length xs) + k))) xs)
   \<and> (l < - int (length xs) \<longrightarrow> removeAt (Some l) xs = drop 1 xs)
   \<and> removeAt None xs = drop 1 xs"
proof (intro conjI impI)
  assume "int (length xs) \<le> i"
  then show "removeAt (Some i) xs = xs"
    by (simp add: removeAt_def Array_splice_def Let_def min_def)
next
  assume "0 \<le> j \<and> j < int (length xs)"
  then show "removeAt (Some j) xs = take (nat j) xs @ drop (Suc (nat j)) xs"
    by (simp add: removeAt_def Array_splice_def Let_def min_def max_def nat_add_distrib)
next
  assume a: "- int (length xs) \<le> k \<and> k < 0"
  then have "nat (int (length xs) + k + 1) = Suc (nat (int (length xs) + k))"
    by linarith
  with a show "removeAt (Some k) xs =
      take (nat (int (length xs) + k)) xs @ drop (Suc (nat (int (length xs) + k))) xs"
    by (simp add: removeAt_def Array_splice_def Let_def min_def max_def)
next
  assume "l < - int (length xs)"
  then show "removeAt (Some l) xs = drop 1 xs"
    by (cases xs) (simp_all add: removeAt_def Array_splice_def Let_def min_def max_def)
next
  show "removeAt None xs = drop 1 xs"
    by (cases xs) (simp_all add: removeAt_def Array_splice_def Let_def min_def max_def)
qed

text \<open>The claim's no-op fails for the out-of-range index \<open>-1\<close>, which removes the last element.\<close>

theorem removeAt_negative_index:
  "removeAt (Some (- 1)) [10, 20, 30 :: nat] \<noteq> [10, 20, 30]"
  by (simp add: removeAt_def Array_splice_def Let_def)

theorem removeAt_by_index_witness:
  "int (length [10, 20, 30 :: nat]) \<le> 3 \<and> removeAt (Some 3) [10, 20, 30 :: nat] = [10, 20, 30]
   \<and> (0 :: int) \<le> 1 \<and> 1 < int (length [10, 20, 30 :: nat])
   \<and> removeAt (Some 1) [10, 20, 30 :: nat] = [10, 30]
   \<and> - int (length [10, 20, 30 :: nat]) \<le> - 1 \<and> (- 1 :: int) < 0
   \<and> removeAt (Some (- 1)) [10, 20, 30 :: nat] = [10, 20]
   \<and> - 5 < - int (length [10, 20, 30 :: nat])
   \<and> removeAt (Some (- 5)) [10, 20, 30 :: nat] = [20, 30]
   \<and> removeAt None [10, 20, 30 :: nat] = [20, 30]"
  using removeAt_by_index [of "[10, 20, 30 :: nat]" 3 1 "- 1" "- 5"]
  by simp

section \<open>Properties of the history store\<close>

text \<open>An append on a cell that loads as an array, and a run of appends.\<close>

lemma take_append_take: "take n (xs @ take n ys) = take n (xs @ ys)"
  by (simp add: min_def)

lemma saveToHistory_array:
  assumes "getHistory c = JArray h"
  shows "saveToHistory e c = Inr (Parsed (JArray (take MAX_HISTORY (e # h))))"
  using assms by (simp add: saveToHistory_def Let_def)

lemma getHistory_Parsed_JArray: "getHistory (Parsed (JArray h)) = JArray h"
  by (simp add: getHistory_def JSON_parse_item_def truthy_def)

lemma saveAll_array:
  assumes "getHistory c = JArray h"
  shows "saveAll es c =
           Inr (if es = [] then c else Parsed (JArray (take MAX_HISTORY (rev es @ h))))"
  using assms
proof (induction es arbitrary: c h)
  case Nil
  then show ?case by simp
next
  case (Cons e es)
  let ?c1 = "Parsed (JArray (take MAX_HISTORY (e # h)))"
  have s: "saveToHistory e c = Inr ?c1"
    using Cons.prems by (rule saveToHistory_array)
  have "saveAll es ?c1 =
          Inr (if es = [] then ?c1 else Parsed (JArray (take MAX_HISTORY (rev es @ take MAX_HISTORY (e # h)))))"
    by (rule Cons.IH) (rule getHistory_Parsed_JArray)
  then show ?case
    using s by (simp add: take_append_take)
qed

text \<open>
  C2. On a cell that holds a history \<open>h\<close> (or none: then \<open>h\<close> is empty), an append writes
  back \<open>take 50 (e # h)\<close>: the new entry first, then the former entries in their order,
  the oldest dropped from the tail once the length would pass 50, in which case exactly
  50 remain. After any run of one or more appends the stored history is the last 50 of
  the entries, newest first, and from a history of at most 50 no run of appends leads to
  more than 50.
\<close>

theorem saveToHistory_bounded:
  "(getHistory c = JArray h \<longrightarrow>
      saveToHistory e c = Inr (Parsed (JArray (take 50 (e # h))))
      \<and> getHistory (Parsed (JArray (take 50 (e # h)))) = JArray (take 50 (e # h))
      \<and> length (take 50 (e # h)) \<le> 50
      \<and> (length h < 50 \<longrightarrow> take 50 (e # h) = e # h)
      \<and> (50 \<le> length h \<longrightarrow> take 50 (e # h) = e # take 49 h \<and> length (take 50 (e # h)) = 50))
   \<and> (getHistory c = JArray h \<and> es \<noteq> [] \<longrightarrow>
      saveAll es c = Inr (Parsed (JArray (take 50 (rev es @ h))))
      \<and> length (take 50 (rev es @ h)) \<le> 50)
   \<and> (getHistory c = JArray h \<and> length h \<le> 50 \<longrightarrow>
      (\<exists>c' h'. saveAll es c = Inr c' \<and> getHistory c' = JArray h' \<and> length h' \<le> 50))"
proof (intro conjI impI)
  assume a: "getHistory c = JArray h"
  show "saveToHistory e c = Inr (Parsed (JArray (take 50 (e # h))))"
    using saveToHistory_array [OF a] by (simp add: MAX_HISTORY_def)
  show "getHistory (Parsed (JArray (take 50 (e # h)))) = JArray (take 50 (e # h))"
    by (rule getHistory_Parsed_JArray)
  show "length (take 50 (e # h)) \<le> 50"
    by simp
  show "take 50 (e # h) = e # h" if "length h < 50"
    using that by simp
  show "take 50 (e # h) = e # take 49 h" if "50 \<le> length h"
    by (simp add: take_Cons')
  show "length (take 50 (e # h)) = 50" if "50 \<le> length h"
    using that by simp
next
  assume a: "getHistory c = JArray h \<and> es \<noteq> []"
  then show "saveAll es c = Inr (Parsed (JArray (take 50 (rev es @ h))))"
    using saveAll_array [of c h es] by (simp add: MAX_HISTORY_def)
  show "length (take 50 (rev es @ h)) \<le> 50"
    by simp
next
  assume a: "getHistory c = JArray h \<and> length h \<le> 50"
  show "\<exists>c' h'. saveAll es c = Inr c' \<and> getHistory c' = JArray h' \<and> length h' \<le> 50"
  proof (cases "es = []")
    case True
    then show ?thesis using a by simp
  next
    case False
    then have "saveAll es c = Inr (Parsed (JArray (take 50 (rev es @ h))))"
      using a saveAll_array [of c h es] by (simp add: MAX_HISTORY_def)
    then show ?thesis
      by (simp add: getHistory_Parsed_JArray)
  qed
qed

theorem saveToHistory_bounded_witness:
  "getHistory (Parsed (JArray (replicate 50 older_entry))) = JArray (replicate 50 older_entry)
   \<and> saveToHistory example_entry (Parsed (JArray (replicate 50 older_entry)))
       = Inr (Parsed (JArray (example_entry # replicate 49 older_entry)))
   \<and> 50 \<le> length (replicate 50 older_entry)
   \<and> length (example_entry # replicate 49 older_entry) = 50
   \<and> [example_entry, example_entry] \<noteq> []
   \<and> saveAll [example_entry, example_entry] (Parsed (JArray (replicate 50 older_entry)))
       = Inr (Parsed (JArray (example_entry # example_entry # replicate 48 older_entry)))
   \<and> getHistory Missing = JArray []
   \<and> length ([] :: history_entry list) \<le> 50
   \<and> saveAll [example_entry] Missing = Inr (Parsed (JArray [example_entry]))"
proof -
  have g: "getHistory (Parsed (JArray (replicate 50 older_entry))) = JArray (replicate 50 older_entry)"
    by (rule getHistory_Parsed_JArray)
  have m: "getHistory Missing = JArray []"
    by (simp add: getHistory_def JSON_parse_item_def truthy_def)
  from saveToHistory_bounded [of "Parsed (JArray (replicate 50 older_entry))" "replicate 50 older_entry"
      example_entry "[example_entry, example_entry]"]
    saveToHistory_bounded [of Missing "[]" example_entry "[example_entry]"] g m
  show ?thesis
    by (simp add: take_Cons' del: saveAll.simps)
qed

lemma getHistory_empty:
  assumes "c = Missing \<or> c = Garbled \<or> (\<exists>v. c = Parsed v \<and> \<not> truthy v)"
  shows "getHistory c = JArray []"
  using assms by (auto simp: getHistory_def JSON_parse_item_def truthy_def)

text \<open>
  C7. A missing item, text that does not parse and a falsy value all load as the empty
  history (\<open>getHistory_empty\<close>). Text that parses to a truthy value that is no array, such
  as \<open>{}\<close>, is not: \<open>getHistory\<close> returns the value itself, and its callers then raise.
\<close>

theorem getHistory_object:
  "getHistory (Parsed (JObject [])) = JObject []
   \<and> saveToHistory e (Parsed (JObject [])) = Inl TypeError
   \<and> exportHistoryCSV numstr isoDate (Parsed (JObject [])) = Inl TypeError"
  by (simp add: getHistory_def JSON_parse_item_def truthy_def saveToHistory_def exportHistoryCSV_def)

section \<open>Properties of the CSV export\<close>










lemma rows_of_invalid_date:
  assumes "\<exists>h \<in> set hs. isoDate (date h) = None"
  shows "rows_of numstr isoDate hs = Inl RangeError"
  using assms
proof (induction hs)
  case Nil
  then show ?case by simp
next
  case (Cons h hs)
  then show ?case
    by (cases "isoDate (date h)") (auto simp: row_of_def)
qed



end
